theory Spec2Isabelle
  imports Complex_Main
begin

section \<open>Python values\<close>

text \<open>
  Strings are lists of bytes (the UTF-8 form of a Python \<^verbatim>\<open>str\<close>). The handlers of
  \<^verbatim>\<open>app.py\<close> compare strings, test them for emptiness and lower-case them, nothing else.
\<close>

text \<open>
  \<^verbatim>\<open>str.lower()\<close> follows the Unicode case tables, which are no part of \<^verbatim>\<open>app.py\<close>. The
  one handler that calls it takes it as its argument \<open>lower\<close>, a function from strings
  to strings of which nothing is assumed.
\<close>

text \<open>
  What \<^verbatim>\<open>request.get_json()\<close> hands to a handler: \<^verbatim>\<open>None\<close>, a bool, an int, a float, a
  str, a list or a dict. A float is held by the rational it denotes, or is one of the
  infinities or NaN (which \<^verbatim>\<open>json.loads\<close> accepts). A dict is an association list
  read from the front.
\<close>

datatype pyfloat = Finite rat | Infinite | NaN

datatype json =
    JNull
  | JBool bool
  | JInt int
  | JFloat pyfloat
  | JStr string
  | JArr "json list"
  | JObj "(string \<times> json) list"

text \<open>Python's truth value of an object, as \<^verbatim>\<open>not x\<close>, \<^verbatim>\<open>all([...])\<close> and \<^verbatim>\<open>if x\<close> test it.\<close>

fun truthy :: "json \<Rightarrow> bool" where
  "truthy JNull = False"
| "truthy (JBool b) = b"
| "truthy (JInt n) = (n \<noteq> 0)"
| "truthy (JFloat (Finite r)) = (r \<noteq> 0)"
| "truthy (JFloat _) = True"
| "truthy (JStr s) = (s \<noteq> [])"
| "truthy (JArr xs) = (xs \<noteq> [])"
| "truthy (JObj kvs) = (kvs \<noteq> [])"

text \<open>\<^verbatim>\<open>d.get(k)\<close>: the value under the key, \<^verbatim>\<open>None\<close> when the key is absent.\<close>

type_synonym dict = "(string \<times> json) list"

definition dict_get :: "dict \<Rightarrow> string \<Rightarrow> json" where
  "dict_get kvs k = (case map_of kvs k of None \<Rightarrow> JNull | Some v \<Rightarrow> v)"

text \<open>The exceptions a handler can raise (Flask answers them with a status 500).\<close>

datatype exn = NameError | AttributeError

section \<open>Data model\<close>

text \<open>One entry of the module-level list \<^verbatim>\<open>classes\<close>; the key \<^verbatim>\<open>"id"\<close> is the field \<open>id_c\<close>.\<close>

record fitness_class =
  id_c :: string
  name :: string
  date_time :: string
  instructor :: string
  total_slots :: int
  available_slots :: int

text \<open>
  One entry of the module-level list \<^verbatim>\<open>bookings\<close>. The three client-supplied values are
  stored as they came in the request body, whatever their JSON type.
\<close>

record booking =
  booking_id :: string
  class_id :: json
  client_name :: json
  client_email :: json
  booking_time :: string

record app_state =
  classes :: "fitness_class list"
  bookings :: "booking list"

text \<open>
  The module defines neither \<^verbatim>\<open>classes\<close> nor \<^verbatim>\<open>bookings\<close> at import: both names are bound
  for the first time by \<^verbatim>\<open>reset_test_data\<close>. \<open>None\<close> is the module before that call.
\<close>

type_synonym globals = "app_state option"

section \<open>Responses\<close>

text \<open>
  The JSON bodies the handlers build, one constructor per \<^verbatim>\<open>jsonify(...)\<close> of the source:
  \<^descr> \<open>Message_reset\<close>: \<^verbatim>\<open>{"message": "In-memory data reset successfully for testing."}\<close>
  \<^descr> \<open>Class_list cs\<close>: the array \<^verbatim>\<open>classes\<close>
  \<^descr> \<open>Error_invalid_json\<close>: \<^verbatim>\<open>{"error": "Request body must be valid JSON."}\<close>
  \<^descr> \<open>Error_missing_fields\<close>: \<^verbatim>\<open>{"error": "Missing required fields: ..."}\<close>
  \<^descr> \<open>Error_class_not_found v\<close>: \<^verbatim>\<open>{"error": f"Class with ID '{class_id}' not found."}\<close>
  \<^descr> \<open>Error_fully_booked\<close>: \<^verbatim>\<open>{"error": "This class is fully booked. No slots available."}\<close>
  \<^descr> \<open>Booking_created b n\<close>: \<^verbatim>\<open>{"message": "Booking successfully created!",
     "booking_details": b, "class_remaining_slots": n}\<close>
  \<^descr> \<open>Error_missing_email\<close>: \<^verbatim>\<open>{"error": "Please provide a 'client_email' query parameter ..."}\<close>
  \<^descr> \<open>Message_no_bookings q\<close>: \<^verbatim>\<open>{"message": f"No bookings found for email: '{q}'."}\<close>
  \<^descr> \<open>Booking_list bs\<close>: the array of the bookings found
\<close>

datatype body =
    Message_reset
  | Class_list "fitness_class list"
  | Error_invalid_json
  | Error_missing_fields
  | Error_class_not_found json
  | Error_fully_booked
  | Booking_created booking int
  | Error_missing_email
  | Message_no_bookings string
  | Booking_list "booking list"

text \<open>A response is a body and an HTTP status; a handler returns one or raises.\<close>

type_synonym response = "body \<times> nat"

type_synonym outcome = "exn + response"

section \<open>The handlers\<close>

subsection \<open>\<^verbatim>\<open>POST /test/reset_data\<close>\<close>

text \<open>
  The four \<^verbatim>\<open>str(uuid.uuid4())\<close> and the four
  \<^verbatim>\<open>(datetime.now() + timedelta(...)).isoformat()\<close> are the arguments \<open>u1 .. u4\<close> and
  \<open>t1 .. t4\<close>. The third instructor's name is the byte sequence of the source file.
\<close>

definition reset_test_data ::
  "string \<Rightarrow> string \<Rightarrow> string \<Rightarrow> string \<Rightarrow> string \<Rightarrow> string \<Rightarrow> string \<Rightarrow> string
     \<Rightarrow> globals \<Rightarrow> outcome \<times> globals" where
  "reset_test_data u1 t1 u2 t2 u3 t3 u4 t4 g =
     (Inr (Message_reset, 200),
      Some \<lparr>classes =
        [\<lparr>id_c = u1, name = ''Sunrise Yoga & Meditation'', date_time = t1,
           instructor = ''Zen Master Yoda'', total_slots = 18, available_slots = 18\<rparr>,
         \<lparr>id_c = u2, name = ''Power HIIT Blast'', date_time = t2,
           instructor = ''Captain America'', total_slots = 12, available_slots = 12\<rparr>,
         \<lparr>id_c = u3, name = ''Groovy Zumba Fiesta'', date_time = t3,
           instructor = ''Beyonc'' @ [CHR 0xE2, CHR 0x88, CHR 0x9A, CHR 0xC2, CHR 0xA9]
             @ '' Knowles'',
           total_slots = 25, available_slots = 25\<rparr>,
         \<lparr>id_c = u4, name = ''Core Strength Pilates'', date_time = t4,
           instructor = ''Wonder Woman'', total_slots = 14, available_slots = 14\<rparr>],
       bookings = []\<rparr>)"

subsection \<open>\<^verbatim>\<open>GET /classes\<close>\<close>

definition get_all_fitness_classes :: "globals \<Rightarrow> outcome \<times> globals" where
  "get_all_fitness_classes g =
     (case g of
        None \<Rightarrow> (Inl NameError, g)
      | Some s \<Rightarrow> (Inr (Class_list (classes s), 200), g))"

subsection \<open>\<^verbatim>\<open>POST /book\<close>\<close>

text \<open>
  The search loop of lines 109 to 113: the position of the first class whose id equals
  \<open>class_id\<close>, \<open>None\<close> when the loop ends with \<^verbatim>\<open>target_class = None\<close>. A class id is a
  str, so it equals the request's value only when that value is the same str.
\<close>

fun find_class :: "fitness_class list \<Rightarrow> json \<Rightarrow> nat option" where
  "find_class [] v = None"
| "find_class (cls # rest) v =
     (if JStr (id_c cls) = v then Some 0 else map_option Suc (find_class rest v))"

text \<open>
  Lines 93 to 106, the checks of the request body: the early return (or the exception:
  \<^verbatim>\<open>request_data.get\<close> exists only on a dict), or the dict that passed.
\<close>

definition book_fields :: "json \<Rightarrow> outcome + dict" where
  "book_fields request_data =
     (if \<not> truthy request_data then Inl (Inr (Error_invalid_json, 400))
      else (case request_data of
        JObj kvs \<Rightarrow>
          (let req_class_id = dict_get kvs ''class_id'';
               req_client_name = dict_get kvs ''client_name'';
               req_client_email = dict_get kvs ''client_email''
           in if \<not> (truthy req_class_id \<and> truthy req_client_name \<and> truthy req_client_email)
              then Inl (Inr (Error_missing_fields, 400))
              else Inr kvs)
      | _ \<Rightarrow> Inl (Inl AttributeError)))"

text \<open>
  Lines 108 to 122, the reads of the shared list \<^verbatim>\<open>classes\<close>: the early return, or the
  position of \<^verbatim>\<open>target_class\<close>, a class with a slot left.
\<close>

definition book_find :: "dict \<Rightarrow> app_state \<Rightarrow> outcome + nat" where
  "book_find kvs s =
     (let req_class_id = dict_get kvs ''class_id''
      in case find_class (classes s) req_class_id of
           None \<Rightarrow> Inl (Inr (Error_class_not_found req_class_id, 404))
         | Some i \<Rightarrow>
             (if available_slots (classes s ! i) \<le> 0
              then Inl (Inr (Error_fully_booked, 409))
              else Inr i))"

text \<open>Line 126, \<^verbatim>\<open>target_class['available_slots'] -= 1\<close>, on the dict inside the list.\<close>

definition book_decrement :: "nat \<Rightarrow> app_state \<Rightarrow> app_state" where
  "book_decrement i s =
     s\<lparr>classes := (classes s)
         [i := (classes s ! i)\<lparr>available_slots := available_slots (classes s ! i) - 1\<rparr>]\<rparr>"

text \<open>
  Lines 129 to 144: the new record (with \<open>new_id\<close> for \<^verbatim>\<open>str(uuid.uuid4())\<close> and \<open>now\<close> for
  \<^verbatim>\<open>datetime.now().isoformat()\<close>), the append, and the response, which reads the slots
  of the target class at that moment.
\<close>

definition new_booking_record :: "dict \<Rightarrow> string \<Rightarrow> string \<Rightarrow> booking" where
  "new_booking_record kvs new_id now =
     \<lparr>booking_id = new_id,
      class_id = dict_get kvs ''class_id'',
      client_name = dict_get kvs ''client_name'',
      client_email = dict_get kvs ''client_email'',
      booking_time = now\<rparr>"

definition book_append :: "dict \<Rightarrow> string \<Rightarrow> string \<Rightarrow> nat \<Rightarrow> app_state \<Rightarrow> response \<times> app_state" where
  "book_append kvs new_id now i s =
     (let new_booking_record = new_booking_record kvs new_id now
      in ((Booking_created new_booking_record (available_slots (classes s ! i)), 201),
          s\<lparr>bookings := bookings s @ [new_booking_record]\<rparr>))"

text \<open>
  The handler: the four parts one after the other. The name \<^verbatim>\<open>classes\<close> is read for the
  first time at line 110, after the checks of the body.
\<close>

definition book_a_fitness_class ::
  "json \<Rightarrow> string \<Rightarrow> string \<Rightarrow> globals \<Rightarrow> outcome \<times> globals" where
  "book_a_fitness_class request_data new_id now g =
     (case book_fields request_data of
        Inl early \<Rightarrow> (early, g)
      | Inr kvs \<Rightarrow>
          (case g of
             None \<Rightarrow> (Inl NameError, g)
           | Some s \<Rightarrow>
               (case book_find kvs s of
                  Inl early \<Rightarrow> (early, g)
                | Inr i \<Rightarrow>
                    (case book_append kvs new_id now i (book_decrement i s) of
                       (resp, s') \<Rightarrow> (Inr resp, Some s')))))"

subsection \<open>\<^verbatim>\<open>GET /bookings\<close>\<close>

text \<open>
  The list comprehension of lines 162 to 165, with \<open>lower\<close> for \<^verbatim>\<open>str.lower\<close>.
  \<^verbatim>\<open>booking['client_email'].lower()\<close> exists only on a str: the first stored email of
  another type raises.
\<close>

fun client_specific_bookings ::
  "(string \<Rightarrow> string) \<Rightarrow> booking list \<Rightarrow> string \<Rightarrow> exn + booking list" where
  "client_specific_bookings lower [] q = Inr []"
| "client_specific_bookings lower (b # rest) q =
     (case client_email b of
        JStr e \<Rightarrow>
          (case client_specific_bookings lower rest q of
             Inl x \<Rightarrow> Inl x
           | Inr found \<Rightarrow> Inr (if lower e = lower q then b # found else found))
      | _ \<Rightarrow> Inl AttributeError)"

text \<open>\<open>client_email_query\<close> is \<^verbatim>\<open>request.args.get('client_email')\<close>: a str or \<^verbatim>\<open>None\<close>.\<close>

definition get_client_bookings_by_email ::
  "(string \<Rightarrow> string) \<Rightarrow> string option \<Rightarrow> globals \<Rightarrow> outcome \<times> globals" where
  "get_client_bookings_by_email lower client_email_query g =
     (case client_email_query of
        None \<Rightarrow> (Inr (Error_missing_email, 400), g)
      | Some q \<Rightarrow>
          (if q = [] then (Inr (Error_missing_email, 400), g)
           else (case g of
             None \<Rightarrow> (Inl NameError, g)
           | Some s \<Rightarrow>
               (case client_specific_bookings lower (bookings s) q of
                  Inl x \<Rightarrow> (Inl x, g)
                | Inr found \<Rightarrow>
                    (if found = [] then (Inr (Message_no_bookings q, 200), g)
                     else (Inr (Booking_list found, 200), g))))))"

section \<open>Requests served one after the other\<close>

text \<open>
  A request to one of the four routes, with the values the handler draws from its
  surroundings (fresh ids, clock readings). \<open>lower\<close> is \<^verbatim>\<open>str.lower\<close>, as above.
\<close>

datatype request =
    Reset string string string string string string string string
  | List_classes
  | Book json string string
  | Bookings_for "string option"

fun handle :: "(string \<Rightarrow> string) \<Rightarrow> request \<Rightarrow> globals \<Rightarrow> outcome \<times> globals" where
  "handle lower (Reset u1 t1 u2 t2 u3 t3 u4 t4) g = reset_test_data u1 t1 u2 t2 u3 t3 u4 t4 g"
| "handle lower List_classes g = get_all_fitness_classes g"
| "handle lower (Book request_data new_id now) g =
     book_a_fitness_class request_data new_id now g"
| "handle lower (Bookings_for client_email_query) g =
     get_client_bookings_by_email lower client_email_query g"

text \<open>The outcomes of a sequence of requests, in order, and the module state after the last.\<close>

fun serve ::
  "(string \<Rightarrow> string) \<Rightarrow> request list \<Rightarrow> globals \<Rightarrow> outcome list \<times> globals" where
  "serve lower [] g = ([], g)"
| "serve lower (r # rs) g =
     (case handle lower r g of
        (out, g') \<Rightarrow> (case serve lower rs g' of (outs, g'') \<Rightarrow> (out # outs, g'')))"

text \<open>The HTTP status of an outcome; an exception has none of the handler's making.\<close>

fun status :: "outcome \<Rightarrow> nat option" where
  "status (Inl x) = None"
| "status (Inr (b, code)) = Some code"

text \<open>The capacity invariant of the catalog: every class has between 0 and its total of slots left.\<close>

definition slots_ok :: "globals \<Rightarrow> bool" where
  "slots_ok g =
     (case g of
        None \<Rightarrow> True
      | Some s \<Rightarrow> list_all (\<lambda>c. 0 \<le> available_slots c \<and> available_slots c \<le> total_slots c) (classes s))"

text \<open>
  A booking request for the class \<open>cid\<close> that passes the field check: a dict whose
  \<^verbatim>\<open>class_id\<close> is the non-empty str \<open>cid\<close> and whose name and email are truthy.
\<close>

fun books_class :: "string \<Rightarrow> request \<Rightarrow> bool" where
  "books_class cid (Book (JObj kvs) new_id now) =
     (dict_get kvs ''class_id'' = JStr cid \<and> cid \<noteq> [] \<and>
      truthy (dict_get kvs ''client_name'') \<and> truthy (dict_get kvs ''client_email''))"
| "books_class cid _ = False"

text \<open>The ledger entries that reference the class \<open>cid\<close>.\<close>

definition bookings_of_class :: "string \<Rightarrow> booking list \<Rightarrow> booking list" where
  "bookings_of_class cid bs = filter (\<lambda>b. class_id b = JStr cid) bs"

section \<open>Booking requests served at the same time\<close>

text \<open>
  \<^verbatim>\<open>app.run\<close> starts the development server, which serves each request in a thread of
  its own, and \<^verbatim>\<open>book_a_fitness_class\<close> takes no lock. A call in progress stands before
  its checks (line 93), before the decrement (line 126) or before the append (line 129),
  there with its dict and the position of its \<^verbatim>\<open>target_class\<close>, or it has returned.
\<close>

datatype progress =
    Before_check
  | Before_decrement dict nat
  | Before_append dict nat
  | Returned outcome

record book_call =
  payload :: json
  fresh_id :: string
  clock :: string
  progress :: progress

text \<open>One part of one call, run on the shared state.\<close>

definition book_step :: "book_call \<Rightarrow> app_state \<Rightarrow> book_call \<times> app_state" where
  "book_step c s =
     (case progress c of
        Before_check \<Rightarrow>
          (case book_fields (payload c) of
             Inl early \<Rightarrow> (c\<lparr>progress := Returned early\<rparr>, s)
           | Inr kvs \<Rightarrow>
               (case book_find kvs s of
                  Inl early \<Rightarrow> (c\<lparr>progress := Returned early\<rparr>, s)
                | Inr i \<Rightarrow> (c\<lparr>progress := Before_decrement kvs i\<rparr>, s)))
      | Before_decrement kvs i \<Rightarrow> (c\<lparr>progress := Before_append kvs i\<rparr>, book_decrement i s)
      | Before_append kvs i \<Rightarrow>
          (case book_append kvs (fresh_id c) (clock c) i s of
             (resp, s') \<Rightarrow> (c\<lparr>progress := Returned (Inr resp)\<rparr>, s'))
      | Returned out \<Rightarrow> (c, s))"

text \<open>A schedule names, step by step, the call that runs next.\<close>

fun interleave :: "nat list \<Rightarrow> book_call list \<Rightarrow> app_state \<Rightarrow> book_call list \<times> app_state" where
  "interleave [] cs s = (cs, s)"
| "interleave (k # ks) cs s =
     (if k < length cs
      then (case book_step (cs ! k) s of (c', s') \<Rightarrow> interleave ks (cs[k := c']) s')
      else interleave ks cs s)"

section \<open>Lookup by email, in the words of the specification\<close>

text \<open>
  The ledger entries a lookup is to find: those whose stored email is a str equal to
  the query once \<open>lower\<close> has lower-cased both.
\<close>

definition email_is_str :: "booking \<Rightarrow> bool" where
  "email_is_str b = (case client_email b of JStr e \<Rightarrow> True | _ \<Rightarrow> False)"

definition matches_email :: "(string \<Rightarrow> string) \<Rightarrow> string \<Rightarrow> booking \<Rightarrow> bool" where
  "matches_email lower q b =
     (case client_email b of JStr e \<Rightarrow> lower e = lower q | _ \<Rightarrow> False)"

section \<open>Sample data\<close>

text \<open>
  For the examples, which use ASCII text only: what \<^verbatim>\<open>str.lower()\<close> returns on a str of
  ASCII characters (A to Z go to a to z, the other characters stay).
\<close>

definition ascii_lower :: "string \<Rightarrow> string" where
  "ascii_lower s =
     map (\<lambda>c. let n = (of_char c :: nat) in if 65 \<le> n \<and> n \<le> 90 then char_of (n + 32) else c) s"

abbreviation yoga :: fitness_class where
  "yoga \<equiv> \<lparr>id_c = ''Yoga'', name = ''Yoga'', date_time = ''2030-01-01T07:30:00'',
              instructor = ''Ann'', total_slots = 1, available_slots = 1\<rparr>"

abbreviation yoga_full :: fitness_class where
  "yoga_full \<equiv> \<lparr>id_c = ''Yoga'', name = ''Yoga'', date_time = ''2030-01-01T07:30:00'',
              instructor = ''Ann'', total_slots = 1, available_slots = 0\<rparr>"

abbreviation hiit :: fitness_class where
  "hiit \<equiv> \<lparr>id_c = ''HIIT'', name = ''Power HIIT Blast'', date_time = ''2030-01-01T17:00:00'',
              instructor = ''Cap'', total_slots = 12, available_slots = 12\<rparr>"

abbreviation book_request :: "string \<Rightarrow> string \<Rightarrow> string \<Rightarrow> json" where
  "book_request cid cname cemail \<equiv>
     JObj [(''class_id'', JStr cid), (''client_name'', JStr cname), (''client_email'', JStr cemail)]"

abbreviation booking_of :: "string \<Rightarrow> string \<Rightarrow> string \<Rightarrow> string \<Rightarrow> string \<Rightarrow> booking" where
  "booking_of bid cid cname cemail t \<equiv>
     \<lparr>booking_id = bid, class_id = JStr cid, client_name = JStr cname,
      client_email = JStr cemail, booking_time = t\<rparr>"

section \<open>Facts about the parts\<close>

lemmas book_defs =
  book_a_fitness_class_def book_fields_def book_find_def book_decrement_def book_append_def
  new_booking_record_def dict_get_def Let_def

lemma ascii_lower_example: "ascii_lower ''A@B.com'' = ascii_lower ''a@b.com''"
  by code_simp

lemma dict_get_empty: "dict_get [] k = JNull"
  by (simp add: dict_get_def)

lemma truthy_dict_get: "truthy (dict_get kvs k) \<Longrightarrow> kvs \<noteq> []"
  by (auto simp: dict_get_empty)

lemma find_class_Some:
  "find_class cs v = Some i \<Longrightarrow> i < length cs \<and> JStr (id_c (cs ! i)) = v"
  by (induction cs arbitrary: i) (auto split: if_splits)

lemma find_class_first:
  "find_class cs v = Some i \<Longrightarrow> j < i \<Longrightarrow> JStr (id_c (cs ! j)) \<noteq> v"
proof (induction cs arbitrary: i j)
  case Nil
  then show ?case by simp
next
  case (Cons c cs)
  then show ?case by (cases j) (auto split: if_splits)
qed

lemma find_class_None:
  "find_class cs v = None \<longleftrightarrow> (\<forall>c \<in> set cs. JStr (id_c c) \<noteq> v)"
  by (induction cs) auto

lemma find_class_update:
  "find_class (cs[i := (cs ! i)\<lparr>available_slots := n\<rparr>]) v = find_class cs v"
proof (induction cs arbitrary: i)
  case Nil
  then show ?case by simp
next
  case (Cons c cs)
  then show ?case by (cases i) auto
qed

text \<open>The checks let a call through exactly when the body is a dict with the three
  fields truthy, the class is found and it has a slot left.\<close>

lemma book_fields_Inr:
  "book_fields request_data = Inr kvs \<longleftrightarrow>
     request_data = JObj kvs \<and> truthy (dict_get kvs ''class_id'') \<and>
     truthy (dict_get kvs ''client_name'') \<and> truthy (dict_get kvs ''client_email'')"
  by (auto simp: book_fields_def Let_def dict_get_empty split: json.splits if_splits)

lemma book_fields_falsy:
  assumes "\<not> truthy (dict_get kvs ''class_id'') \<or> \<not> truthy (dict_get kvs ''client_name'')
             \<or> \<not> truthy (dict_get kvs ''client_email'')"
  shows "book_fields (JObj kvs) =
           Inl (Inr (if kvs = [] then Error_invalid_json else Error_missing_fields, 400))"
  using assms by (auto simp: book_fields_def Let_def)

lemma book_fields_never_201: "book_fields request_data \<noteq> Inl (Inr (b, 201))"
  by (auto simp: book_fields_def Let_def split: json.splits)

lemma book_find_Inr:
  "book_find kvs s = Inr i \<longleftrightarrow>
     find_class (classes s) (dict_get kvs ''class_id'') = Some i \<and>
     0 < available_slots (classes s ! i)"
  by (auto simp: book_find_def Let_def split: option.splits if_splits)

lemma book_find_full:
  "find_class (classes s) (dict_get kvs ''class_id'') = Some i \<Longrightarrow>
   available_slots (classes s ! i) \<le> 0 \<Longrightarrow>
   book_find kvs s = Inl (Inr (Error_fully_booked, 409))"
  by (simp add: book_find_def)

lemma book_find_unknown:
  "find_class (classes s) (dict_get kvs ''class_id'') = None \<Longrightarrow>
   book_find kvs s = Inl (Inr (Error_class_not_found (dict_get kvs ''class_id''), 404))"
  by (simp add: book_find_def)

lemma book_find_never_201: "book_find kvs s \<noteq> Inl (Inr (b, 201))"
  by (auto simp: book_find_def Let_def split: option.splits)

lemma book_find_in_range: "book_find kvs s = Inr i \<Longrightarrow> i < length (classes s)"
  by (auto simp: book_find_Inr dest: find_class_Some)

text \<open>What a call returns and leaves behind: stopped by a check, or let through.\<close>

lemma book_stopped_fields:
  "book_fields request_data = Inl early \<Longrightarrow>
   book_a_fitness_class request_data new_id now g = (early, g)"
  by (simp add: book_a_fitness_class_def)

lemma book_stopped_find:
  "book_fields request_data = Inr kvs \<Longrightarrow> book_find kvs s = Inl early \<Longrightarrow>
   book_a_fitness_class request_data new_id now (Some s) = (early, Some s)"
  by (simp add: book_a_fitness_class_def)

text \<open>A truthy body that is no dict (a list, a str, a number, \<^verbatim>\<open>true\<close>) makes the handler raise.\<close>

lemma book_non_dict_body:
  assumes "truthy request_data" and "\<forall>kvs. request_data \<noteq> JObj kvs"
  shows "book_a_fitness_class request_data new_id now g = (Inl AttributeError, g)"
proof -
  from assms have "book_fields request_data = Inl (Inl AttributeError)"
    by (cases request_data) (simp_all add: book_fields_def)
  then show ?thesis by (rule book_stopped_fields)
qed

lemma book_unbound:
  "book_fields request_data = Inr kvs \<Longrightarrow>
   book_a_fitness_class request_data new_id now None = (Inl NameError, None)"
  by (simp add: book_a_fitness_class_def)

lemma book_passed:
  assumes "book_fields request_data = Inr kvs" and "book_find kvs s = Inr i"
  shows "book_a_fitness_class request_data new_id now (Some s) =
     (Inr (Booking_created (new_booking_record kvs new_id now)
             (available_slots (classes s ! i) - 1), 201),
      Some \<lparr>classes = (classes s)
               [i := (classes s ! i)\<lparr>available_slots := available_slots (classes s ! i) - 1\<rparr>],
            bookings = bookings s @ [new_booking_record kvs new_id now]\<rparr>)"
proof -
  from assms(2) have "i < length (classes s)"
    by (rule book_find_in_range)
  with assms show ?thesis
    by (simp add: book_a_fitness_class_def book_append_def book_decrement_def Let_def)
qed

text \<open>Only the status 201 comes with a change of state, and only a call let through gets it.\<close>

lemma book_201:
  assumes "fst (book_a_fitness_class request_data new_id now g) = Inr (b, 201)"
  shows "\<exists>kvs s i. g = Some s \<and> book_fields request_data = Inr kvs \<and> book_find kvs s = Inr i"
proof (cases "book_fields request_data")
  case (Inl early)
  with assms show ?thesis
    by (simp add: book_stopped_fields book_fields_never_201)
next
  case fields: (Inr kvs)
  show ?thesis
  proof (cases g)
    case None
    with assms fields show ?thesis by (simp add: book_unbound)
  next
    case (Some s)
    show ?thesis
    proof (cases "book_find kvs s")
      case (Inl early)
      with assms fields Some show ?thesis
        by (simp add: book_stopped_find book_find_never_201)
    next
      case (Inr i)
      with fields Some show ?thesis by simp
    qed
  qed
qed

lemma book_other_status:
  assumes "status (fst (book_a_fitness_class request_data new_id now g)) \<noteq> Some 201"
  shows "snd (book_a_fitness_class request_data new_id now g) = g"
proof (cases "book_fields request_data")
  case (Inl early)
  then show ?thesis by (simp add: book_stopped_fields)
next
  case fields: (Inr kvs)
  show ?thesis
  proof (cases g)
    case None
    with fields show ?thesis by (simp add: book_unbound)
  next
    case (Some s)
    show ?thesis
    proof (cases "book_find kvs s")
      case (Inl early)
      with fields Some show ?thesis by (simp add: book_stopped_find)
    next
      case (Inr i)
      with assms fields Some show ?thesis by (simp add: book_passed)
    qed
  qed
qed

section \<open>Booking: the error paths\<close>

text \<open>
  C7. A booking call in which \<^verbatim>\<open>class_id\<close>, \<^verbatim>\<open>client_name\<close> or \<^verbatim>\<open>client_email\<close> is absent
  or empty (or any other falsy value: \<open>dict_get\<close> gives \<^verbatim>\<open>None\<close> for an absent key, and
  \<^verbatim>\<open>None\<close> and the empty str are falsy) is answered with status 400, InvalidInput, and
  the module state stays as it was. This holds in every state, also before the first
  reset. The body names the missing fields, or, for the empty dict, the invalid JSON.
\<close>

theorem book_missing_field_rejected:
  assumes "\<not> truthy (dict_get kvs ''class_id'') \<or> \<not> truthy (dict_get kvs ''client_name'')
             \<or> \<not> truthy (dict_get kvs ''client_email'')"
  shows "book_a_fitness_class (JObj kvs) new_id now g =
           (Inr (if kvs = [] then Error_invalid_json else Error_missing_fields, 400), g)"
proof -
  from assms have "book_fields (JObj kvs) =
      Inl (Inr (if kvs = [] then Error_invalid_json else Error_missing_fields, 400))"
    by (rule book_fields_falsy)
  then show ?thesis by (rule book_stopped_fields)
qed

theorem book_missing_field_rejected_witness:
  "\<not> truthy (dict_get [(''class_id'', JStr ''Yoga''), (''client_name'', JStr ''''),
        (''client_email'', JStr ''a@x.com'')] ''client_name'') \<and>
   book_a_fitness_class (book_request ''Yoga'' '''' ''a@x.com'') ''b-1'' ''12:00''
       (Some \<lparr>classes = [yoga], bookings = []\<rparr>) =
     (Inr (Error_missing_fields, 400), Some \<lparr>classes = [yoga], bookings = []\<rparr>)"
  using book_missing_field_rejected
    [of "[(''class_id'', JStr ''Yoga''), (''client_name'', JStr ''''),
          (''client_email'', JStr ''a@x.com'')]"
        "''b-1''" "''12:00''" "Some \<lparr>classes = [yoga], bookings = []\<rparr>"]
  by (simp add: dict_get_def)

text \<open>
  C3. A booking call with truthy (so non-empty) \<^verbatim>\<open>class_id\<close>, \<^verbatim>\<open>client_name\<close> and
  \<^verbatim>\<open>client_email\<close>, whose class exists and has \<^verbatim>\<open>available_slots == 0\<close>, is answered with
  status 409, ClassFull, and leaves the catalog and the ledger as they were.
\<close>

theorem book_full_class_rejected:
  assumes "truthy (dict_get kvs ''class_id'')"
    and "truthy (dict_get kvs ''client_name'')"
    and "truthy (dict_get kvs ''client_email'')"
    and "find_class (classes s) (dict_get kvs ''class_id'') = Some i"
    and "available_slots (classes s ! i) = 0"
  shows "book_a_fitness_class (JObj kvs) new_id now (Some s) =
           (Inr (Error_fully_booked, 409), Some s)"
proof -
  from assms(1-3) have "book_fields (JObj kvs) = Inr kvs"
    by (simp add: book_fields_Inr)
  moreover from assms(4,5) have "book_find kvs s = Inl (Inr (Error_fully_booked, 409))"
    by (simp add: book_find_full)
  ultimately show ?thesis by (rule book_stopped_find)
qed

theorem book_full_class_rejected_witness:
  "find_class [yoga_full] (JStr ''Yoga'') = Some 0 \<and>
   available_slots ([yoga_full] ! 0) = 0 \<and>
   book_a_fitness_class (book_request ''Yoga'' ''Bob'' ''b@x.com'') ''b-2'' ''12:05''
       (Some \<lparr>classes = [yoga_full], bookings = [booking_of ''b-1'' ''Yoga'' ''Alice'' ''a@x.com'' ''12:00'']\<rparr>) =
     (Inr (Error_fully_booked, 409),
      Some \<lparr>classes = [yoga_full], bookings = [booking_of ''b-1'' ''Yoga'' ''Alice'' ''a@x.com'' ''12:00'']\<rparr>)"
  using book_full_class_rejected
    [of "[(''class_id'', JStr ''Yoga''), (''client_name'', JStr ''Bob''),
          (''client_email'', JStr ''b@x.com'')]"
        "\<lparr>classes = [yoga_full], bookings = [booking_of ''b-1'' ''Yoga'' ''Alice'' ''a@x.com'' ''12:00'']\<rparr>"
        0 "''b-2''" "''12:05''"]
  by (simp add: dict_get_def)

text \<open>
  C4, as the claim states it, fails: the field check comes before the search, so an
  unknown \<^verbatim>\<open>class_id\<close> sent with an empty \<^verbatim>\<open>client_name\<close> is answered with status 400,
  not 404.
\<close>

theorem book_unknown_class_empty_name_counterexample:
  "find_class [yoga] (JStr ''bad-id'') = None \<and>
   book_a_fitness_class (book_request ''bad-id'' '''' ''a@x.com'') ''b-1'' ''12:00''
       (Some \<lparr>classes = [yoga], bookings = []\<rparr>) =
     (Inr (Error_missing_fields, 400), Some \<lparr>classes = [yoga], bookings = []\<rparr>)"
  by (simp add: book_defs)

text \<open>
  C4, amended. Once \<^verbatim>\<open>classes\<close> is bound, a booking call with truthy \<^verbatim>\<open>class_id\<close>,
  \<^verbatim>\<open>client_name\<close> and \<^verbatim>\<open>client_email\<close> whose \<^verbatim>\<open>class_id\<close> matches no class is answered
  with status 404, ClassNotFound, whatever else the name and the email hold.
\<close>

theorem book_unknown_class_not_found:
  assumes "truthy (dict_get kvs ''class_id'')"
    and "truthy (dict_get kvs ''client_name'')"
    and "truthy (dict_get kvs ''client_email'')"
    and "find_class (classes s) (dict_get kvs ''class_id'') = None"
  shows "book_a_fitness_class (JObj kvs) new_id now (Some s) =
           (Inr (Error_class_not_found (dict_get kvs ''class_id''), 404), Some s)"
proof -
  from assms(1-3) have "book_fields (JObj kvs) = Inr kvs"
    by (simp add: book_fields_Inr)
  moreover from assms(4) have "book_find kvs s =
      Inl (Inr (Error_class_not_found (dict_get kvs ''class_id''), 404))"
    by (rule book_find_unknown)
  ultimately show ?thesis by (rule book_stopped_find)
qed

theorem book_unknown_class_not_found_witness:
  "find_class [yoga] (JStr ''bad-id'') = None \<and>
   book_a_fitness_class (book_request ''bad-id'' ''Alice'' ''a@x.com'') ''b-1'' ''12:00''
       (Some \<lparr>classes = [yoga], bookings = []\<rparr>) =
     (Inr (Error_class_not_found (JStr ''bad-id''), 404), Some \<lparr>classes = [yoga], bookings = []\<rparr>)"
  using book_unknown_class_not_found
    [of "[(''class_id'', JStr ''bad-id''), (''client_name'', JStr ''Alice''),
          (''client_email'', JStr ''a@x.com'')]"
        "\<lparr>classes = [yoga], bookings = []\<rparr>" "''b-1''" "''12:00''"]
  by (simp add: dict_get_def)

text \<open>
  C10. A booking call answered with status 404, ClassNotFound, leaves the catalog and
  the ledger as they were.
\<close>

theorem book_not_found_keeps_state:
  assumes "fst (book_a_fitness_class request_data new_id now g) = Inr (b, 404)"
  shows "snd (book_a_fitness_class request_data new_id now g) = g"
proof -
  from assms have "status (fst (book_a_fitness_class request_data new_id now g)) \<noteq> Some 201"
    by simp
  then show ?thesis by (rule book_other_status)
qed

theorem book_not_found_keeps_state_witness:
  "fst (book_a_fitness_class (book_request ''bad-id'' ''Alice'' ''a@x.com'') ''b-1'' ''12:00''
       (Some \<lparr>classes = [yoga], bookings = []\<rparr>)) = Inr (Error_class_not_found (JStr ''bad-id''), 404) \<and>
   snd (book_a_fitness_class (book_request ''bad-id'' ''Alice'' ''a@x.com'') ''b-1'' ''12:00''
       (Some \<lparr>classes = [yoga], bookings = []\<rparr>)) = Some \<lparr>classes = [yoga], bookings = []\<rparr>"
proof -
  have h: "fst (book_a_fitness_class (book_request ''bad-id'' ''Alice'' ''a@x.com'') ''b-1'' ''12:00''
       (Some \<lparr>classes = [yoga], bookings = []\<rparr>)) = Inr (Error_class_not_found (JStr ''bad-id''), 404)"
    by (simp add: book_defs)
  from h book_not_found_keeps_state [OF h] show ?thesis by simp
qed

section \<open>Booking: the successful path\<close>

text \<open>
  C8, as the claim states it, fails when calls run at the same time: the response
  reads the slots of the class anew (line 143), after the decrements of both calls.
  A class of 12 slots, all free when either call begins, answers both calls with 10
  remaining slots, not with 11.
\<close>

theorem concurrent_remaining_slots_counterexample:
  "available_slots hiit - 1 = 11 \<and>
   interleave [0, 1, 0, 1, 0, 1]
     [\<lparr>payload = book_request ''HIIT'' ''Alice'' ''a@x.com'', fresh_id = ''b-1'',
       clock = ''12:00'', progress = Before_check\<rparr>,
      \<lparr>payload = book_request ''HIIT'' ''Bob'' ''b@x.com'', fresh_id = ''b-2'',
       clock = ''12:00'', progress = Before_check\<rparr>]
     \<lparr>classes = [hiit], bookings = []\<rparr> =
   ([\<lparr>payload = book_request ''HIIT'' ''Alice'' ''a@x.com'', fresh_id = ''b-1'',
       clock = ''12:00'',
       progress = Returned (Inr (Booking_created
         (booking_of ''b-1'' ''HIIT'' ''Alice'' ''a@x.com'' ''12:00'') 10, 201))\<rparr>,
      \<lparr>payload = book_request ''HIIT'' ''Bob'' ''b@x.com'', fresh_id = ''b-2'',
       clock = ''12:00'',
       progress = Returned (Inr (Booking_created
         (booking_of ''b-2'' ''HIIT'' ''Bob'' ''b@x.com'' ''12:00'') 10, 201))\<rparr>],
    \<lparr>classes = [\<lparr>id_c = ''HIIT'', name = ''Power HIIT Blast'',
                   date_time = ''2030-01-01T17:00:00'', instructor = ''Cap'',
                   total_slots = 12, available_slots = 10\<rparr>],
      bookings = [booking_of ''b-1'' ''HIIT'' ''Alice'' ''a@x.com'' ''12:00'',
                  booking_of ''b-2'' ''HIIT'' ''Bob'' ''b@x.com'' ''12:00'']\<rparr>)"
  by (simp add: book_step_def book_defs)

text \<open>
  C8, amended. A booking call that runs with no other call in between and is answered
  with status 201 returns the booking record it created, which carries the request's
  \<^verbatim>\<open>class_id\<close>, \<^verbatim>\<open>client_name\<close> and \<^verbatim>\<open>client_email\<close> and is the last entry of the ledger
  afterwards, together with \<^verbatim>\<open>class_remaining_slots\<close>: the slots, after the decrement, of
  the booked class (the first class of the catalog whose id equals the request's
  \<^verbatim>\<open>class_id\<close>), one less than before the call.
\<close>

theorem book_returns_booking_and_remaining:
  assumes "fst (book_a_fitness_class request_data new_id now g) = Inr (b, 201)"
  shows "\<exists>kvs s s' i.
     request_data = JObj kvs \<and> g = Some s \<and>
     snd (book_a_fitness_class request_data new_id now g) = Some s' \<and>
     i < length (classes s) \<and>
     JStr (id_c (classes s ! i)) = dict_get kvs ''class_id'' \<and>
     (\<forall>j<i. JStr (id_c (classes s ! j)) \<noteq> dict_get kvs ''class_id'') \<and>
     b = Booking_created
           \<lparr>booking_id = new_id, class_id = dict_get kvs ''class_id'',
            client_name = dict_get kvs ''client_name'',
            client_email = dict_get kvs ''client_email'', booking_time = now\<rparr>
           (available_slots (classes s ! i) - 1) \<and>
     last (bookings s') =
           \<lparr>booking_id = new_id, class_id = dict_get kvs ''class_id'',
            client_name = dict_get kvs ''client_name'',
            client_email = dict_get kvs ''client_email'', booking_time = now\<rparr> \<and>
     available_slots (classes s' ! i) = available_slots (classes s ! i) - 1"
proof -
  from assms obtain kvs s i where g: "g = Some s"
    and fields: "book_fields request_data = Inr kvs" and chk: "book_find kvs s = Inr i"
    using book_201 by blast
  from fields have req: "request_data = JObj kvs"
    by (simp add: book_fields_Inr)
  from chk have found: "find_class (classes s) (dict_get kvs ''class_id'') = Some i"
    by (simp add: book_find_Inr)
  from chk have i: "i < length (classes s)"
    by (rule book_find_in_range)
  from found have same: "JStr (id_c (classes s ! i)) = dict_get kvs ''class_id''"
    by (simp add: find_class_Some)
  from found have first: "\<forall>j<i. JStr (id_c (classes s ! j)) \<noteq> dict_get kvs ''class_id''"
    by (simp add: find_class_first)
  let ?r = "\<lparr>booking_id = new_id, class_id = dict_get kvs ''class_id'',
              client_name = dict_get kvs ''client_name'',
              client_email = dict_get kvs ''client_email'', booking_time = now\<rparr>"
  let ?s' = "\<lparr>classes = (classes s)
               [i := (classes s ! i)\<lparr>available_slots := available_slots (classes s ! i) - 1\<rparr>],
             bookings = bookings s @ [?r]\<rparr>"
  from book_passed [OF fields chk, of new_id now]
  have run: "book_a_fitness_class request_data new_id now (Some s) =
      (Inr (Booking_created ?r (available_slots (classes s ! i) - 1), 201), Some ?s')"
    by (simp add: new_booking_record_def)
  show ?thesis
  proof (intro exI conjI)
    show "request_data = JObj kvs" by fact
    show "g = Some s" by fact
    show "snd (book_a_fitness_class request_data new_id now g) = Some ?s'"
      using g run by simp
    show "i < length (classes s)" by fact
    show "JStr (id_c (classes s ! i)) = dict_get kvs ''class_id''" by fact
    show "\<forall>j<i. JStr (id_c (classes s ! j)) \<noteq> dict_get kvs ''class_id''" by fact
    show "b = Booking_created ?r (available_slots (classes s ! i) - 1)"
      using assms g run by simp
    show "last (bookings ?s') = ?r" by simp
    show "available_slots (classes ?s' ! i) = available_slots (classes s ! i) - 1"
      using i by simp
  qed
qed

theorem book_returns_booking_and_remaining_witness:
  "fst (book_a_fitness_class (book_request ''Yoga'' ''Bob'' ''b@x.com'') ''b-2'' ''12:05''
         (Some \<lparr>classes = [hiit, yoga],
                bookings = [booking_of ''b-1'' ''HIIT'' ''Alice'' ''a@x.com'' ''12:00'']\<rparr>)) =
     Inr (Booking_created (booking_of ''b-2'' ''Yoga'' ''Bob'' ''b@x.com'' ''12:05'') 0, 201) \<and>
   (\<exists>kvs s s' i.
     book_request ''Yoga'' ''Bob'' ''b@x.com'' = JObj kvs \<and>
     Some \<lparr>classes = [hiit, yoga],
           bookings = [booking_of ''b-1'' ''HIIT'' ''Alice'' ''a@x.com'' ''12:00'']\<rparr> = Some s \<and>
     snd (book_a_fitness_class (book_request ''Yoga'' ''Bob'' ''b@x.com'') ''b-2'' ''12:05''
            (Some \<lparr>classes = [hiit, yoga],
                   bookings = [booking_of ''b-1'' ''HIIT'' ''Alice'' ''a@x.com'' ''12:00'']\<rparr>)) =
       Some s' \<and>
     i < length (classes s) \<and>
     JStr (id_c (classes s ! i)) = dict_get kvs ''class_id'' \<and>
     (\<forall>j<i. JStr (id_c (classes s ! j)) \<noteq> dict_get kvs ''class_id'') \<and>
     Booking_created (booking_of ''b-2'' ''Yoga'' ''Bob'' ''b@x.com'' ''12:05'') 0 =
       Booking_created
           \<lparr>booking_id = ''b-2'', class_id = dict_get kvs ''class_id'',
            client_name = dict_get kvs ''client_name'',
            client_email = dict_get kvs ''client_email'', booking_time = ''12:05''\<rparr>
           (available_slots (classes s ! i) - 1) \<and>
     last (bookings s') =
           \<lparr>booking_id = ''b-2'', class_id = dict_get kvs ''class_id'',
            client_name = dict_get kvs ''client_name'',
            client_email = dict_get kvs ''client_email'', booking_time = ''12:05''\<rparr> \<and>
     available_slots (classes s' ! i) = available_slots (classes s ! i) - 1)"
proof -
  have h: "fst (book_a_fitness_class (book_request ''Yoga'' ''Bob'' ''b@x.com'') ''b-2'' ''12:05''
         (Some \<lparr>classes = [hiit, yoga],
                bookings = [booking_of ''b-1'' ''HIIT'' ''Alice'' ''a@x.com'' ''12:00'']\<rparr>)) =
     Inr (Booking_created (booking_of ''b-2'' ''Yoga'' ''Bob'' ''b@x.com'' ''12:05'') 0, 201)"
    by (simp add: book_defs)
  from h book_returns_booking_and_remaining [OF h] show ?thesis by blast
qed

text \<open>
  C9. A booking call answered with status 201 appends one record to the ledger, the
  one built from the request, and the earlier entries keep their places. It changes
  one class, in one field: the catalog keeps its length, every class at another
  position is as before, and the booked class (the first whose id equals the
  request's \<^verbatim>\<open>class_id\<close>) differs from its old self in \<^verbatim>\<open>available_slots\<close> only, which is
  one less.
\<close>

theorem book_changes_one_class_one_entry:
  assumes "book_a_fitness_class request_data new_id now g = (Inr (b, 201), g')"
  shows "\<exists>kvs s s' i.
     request_data = JObj kvs \<and> g = Some s \<and> g' = Some s' \<and>
     i < length (classes s) \<and>
     JStr (id_c (classes s ! i)) = dict_get kvs ''class_id'' \<and>
     (\<forall>j<i. JStr (id_c (classes s ! j)) \<noteq> dict_get kvs ''class_id'') \<and>
     bookings s' = bookings s @
       [\<lparr>booking_id = new_id, class_id = dict_get kvs ''class_id'',
         client_name = dict_get kvs ''client_name'',
         client_email = dict_get kvs ''client_email'', booking_time = now\<rparr>] \<and>
     length (classes s') = length (classes s) \<and>
     (\<forall>j. j \<noteq> i \<longrightarrow> classes s' ! j = classes s ! j) \<and>
     classes s' ! i = (classes s ! i)\<lparr>available_slots := available_slots (classes s ! i) - 1\<rparr>"
proof -
  from assms have "fst (book_a_fitness_class request_data new_id now g) = Inr (b, 201)"
    by simp
  then obtain kvs s i where g: "g = Some s"
    and fields: "book_fields request_data = Inr kvs" and chk: "book_find kvs s = Inr i"
    using book_201 by blast
  from fields have req: "request_data = JObj kvs"
    by (simp add: book_fields_Inr)
  from chk have found: "find_class (classes s) (dict_get kvs ''class_id'') = Some i"
    by (simp add: book_find_Inr)
  from chk have i: "i < length (classes s)"
    by (rule book_find_in_range)
  from found have same: "JStr (id_c (classes s ! i)) = dict_get kvs ''class_id''"
    by (simp add: find_class_Some)
  from found have first: "\<forall>j<i. JStr (id_c (classes s ! j)) \<noteq> dict_get kvs ''class_id''"
    by (simp add: find_class_first)
  let ?r = "\<lparr>booking_id = new_id, class_id = dict_get kvs ''class_id'',
              client_name = dict_get kvs ''client_name'',
              client_email = dict_get kvs ''client_email'', booking_time = now\<rparr>"
  let ?s' = "\<lparr>classes = (classes s)
               [i := (classes s ! i)\<lparr>available_slots := available_slots (classes s ! i) - 1\<rparr>],
             bookings = bookings s @ [?r]\<rparr>"
  from assms g book_passed [OF fields chk, of new_id now]
  have g': "g' = Some ?s'"
    by (simp add: new_booking_record_def)
  show ?thesis
  proof (intro exI conjI)
    show "request_data = JObj kvs" by fact
    show "g = Some s" by fact
    show "g' = Some ?s'" by fact
    show "i < length (classes s)" by fact
    show "JStr (id_c (classes s ! i)) = dict_get kvs ''class_id''" by fact
    show "\<forall>j<i. JStr (id_c (classes s ! j)) \<noteq> dict_get kvs ''class_id''" by fact
    show "bookings ?s' = bookings s @ [?r]" by simp
    show "length (classes ?s') = length (classes s)" by simp
    show "\<forall>j. j \<noteq> i \<longrightarrow> classes ?s' ! j = classes s ! j" by simp
    show "classes ?s' ! i =
        (classes s ! i)\<lparr>available_slots := available_slots (classes s ! i) - 1\<rparr>"
      using i by simp
  qed
qed

theorem book_changes_one_class_one_entry_witness:
  "book_a_fitness_class (book_request ''Yoga'' ''Bob'' ''b@x.com'') ''b-2'' ''12:05''
      (Some \<lparr>classes = [hiit, yoga, hiit],
             bookings = [booking_of ''b-1'' ''HIIT'' ''Alice'' ''a@x.com'' ''12:00'']\<rparr>) =
     (Inr (Booking_created (booking_of ''b-2'' ''Yoga'' ''Bob'' ''b@x.com'' ''12:05'') 0, 201),
      Some \<lparr>classes = [hiit, yoga_full, hiit],
             bookings = [booking_of ''b-1'' ''HIIT'' ''Alice'' ''a@x.com'' ''12:00'',
                         booking_of ''b-2'' ''Yoga'' ''Bob'' ''b@x.com'' ''12:05'']\<rparr>) \<and>
   (\<exists>kvs s s' i.
     book_request ''Yoga'' ''Bob'' ''b@x.com'' = JObj kvs \<and>
     Some \<lparr>classes = [hiit, yoga, hiit],
            bookings = [booking_of ''b-1'' ''HIIT'' ''Alice'' ''a@x.com'' ''12:00'']\<rparr> = Some s \<and>
     Some \<lparr>classes = [hiit, yoga_full, hiit],
            bookings = [booking_of ''b-1'' ''HIIT'' ''Alice'' ''a@x.com'' ''12:00'',
                        booking_of ''b-2'' ''Yoga'' ''Bob'' ''b@x.com'' ''12:05'']\<rparr> = Some s' \<and>
     i < length (classes s) \<and>
     JStr (id_c (classes s ! i)) = dict_get kvs ''class_id'' \<and>
     (\<forall>j<i. JStr (id_c (classes s ! j)) \<noteq> dict_get kvs ''class_id'') \<and>
     bookings s' = bookings s @
       [\<lparr>booking_id = ''b-2'', class_id = dict_get kvs ''class_id'',
         client_name = dict_get kvs ''client_name'',
         client_email = dict_get kvs ''client_email'', booking_time = ''12:05''\<rparr>] \<and>
     length (classes s') = length (classes s) \<and>
     (\<forall>j. j \<noteq> i \<longrightarrow> classes s' ! j = classes s ! j) \<and>
     classes s' ! i = (classes s ! i)\<lparr>available_slots := available_slots (classes s ! i) - 1\<rparr>)"
proof -
  have h: "book_a_fitness_class (book_request ''Yoga'' ''Bob'' ''b@x.com'') ''b-2'' ''12:05''
      (Some \<lparr>classes = [hiit, yoga, hiit],
             bookings = [booking_of ''b-1'' ''HIIT'' ''Alice'' ''a@x.com'' ''12:00'']\<rparr>) =
     (Inr (Booking_created (booking_of ''b-2'' ''Yoga'' ''Bob'' ''b@x.com'' ''12:05'') 0, 201),
      Some \<lparr>classes = [hiit, yoga_full, hiit],
             bookings = [booking_of ''b-1'' ''HIIT'' ''Alice'' ''a@x.com'' ''12:00'',
                         booking_of ''b-2'' ''Yoga'' ''Bob'' ''b@x.com'' ''12:05'']\<rparr>)"
    by (simp add: book_defs)
  from h book_changes_one_class_one_entry [OF h] show ?thesis by blast
qed

text \<open>
  The same writes part by part, as they happen when calls run at the same time: the
  checks write nothing, the decrement writes the slots of one class, the append adds
  one record.
\<close>

lemma book_step_writes:
  assumes "book_step c s = (c', s')"
  shows "(case progress c of
      Before_check \<Rightarrow> s' = s
    | Before_decrement kvs i \<Rightarrow>
        bookings s' = bookings s \<and>
        classes s' = (classes s)
          [i := (classes s ! i)\<lparr>available_slots := available_slots (classes s ! i) - 1\<rparr>]
    | Before_append kvs i \<Rightarrow>
        classes s' = classes s \<and>
        bookings s' = bookings s @ [new_booking_record kvs (fresh_id c) (clock c)]
    | Returned out \<Rightarrow> s' = s)"
  using assms
  by (auto simp: book_step_def book_decrement_def book_append_def Let_def
      split: progress.splits sum.splits)

section \<open>Lookup by email\<close>

text \<open>The comprehension is a filter as long as every stored email is a str, and raises otherwise.\<close>

lemma client_specific_bookings_filter:
  "list_all email_is_str bs \<Longrightarrow>
   client_specific_bookings lower bs q = Inr (filter (matches_email lower q) bs)"
  by (induction bs) (auto simp: email_is_str_def matches_email_def split: json.splits)

lemma client_specific_bookings_raises:
  "\<not> list_all email_is_str bs \<Longrightarrow> client_specific_bookings lower bs q = Inl AttributeError"
  by (induction bs) (auto simp: email_is_str_def split: json.splits sum.splits)

text \<open>
  A lookup applies \<open>lower\<close> to the query and to the stored emails, nowhere else: two
  functions that agree there give the same answer. So what the examples below show
  for \<open>ascii_lower\<close> on ASCII text holds for \<^verbatim>\<open>str.lower\<close> itself.
\<close>

lemma client_specific_bookings_cong:
  assumes "lower q = lower' q"
    and "\<forall>b \<in> set bs. \<forall>e. client_email b = JStr e \<longrightarrow> lower e = lower' e"
  shows "client_specific_bookings lower bs q = client_specific_bookings lower' bs q"
  using assms by (induction bs) (auto split: json.splits sum.splits)

lemma get_client_bookings_by_email_cong:
  assumes "lower q = lower' q"
    and "\<forall>b \<in> set (bookings s). \<forall>e. client_email b = JStr e \<longrightarrow> lower e = lower' e"
  shows "get_client_bookings_by_email lower (Some q) (Some s) =
         get_client_bookings_by_email lower' (Some q) (Some s)"
  using client_specific_bookings_cong [OF assms]
  by (simp add: get_client_bookings_by_email_def)

text \<open>
  A ledger with an email that is no str is within reach: the field check of
  \<^verbatim>\<open>POST /book\<close> asks for a truthy email, not for a str, and after a booking with the
  email \<^verbatim>\<open>5\<close> every lookup raises.
\<close>

lemma numeric_email_breaks_lookup:
  "serve lower
     [Book (JObj [(''class_id'', JStr ''Yoga''), (''client_name'', JStr ''Eve''),
                      (''client_email'', JInt 5)]) ''b-1'' ''12:00'',
          Bookings_for (Some ''a@x.com'')]
     (Some \<lparr>classes = [yoga], bookings = []\<rparr>) =
   ([Inr (Booking_created \<lparr>booking_id = ''b-1'', class_id = JStr ''Yoga'',
            client_name = JStr ''Eve'', client_email = JInt 5, booking_time = ''12:00''\<rparr> 0, 201),
     Inl AttributeError],
    Some \<lparr>classes = [yoga_full],
          bookings = [\<lparr>booking_id = ''b-1'', class_id = JStr ''Yoga'',
            client_name = JStr ''Eve'', client_email = JInt 5, booking_time = ''12:00''\<rparr>]\<rparr>)"
  by (simp add: book_defs get_client_bookings_by_email_def)

text \<open>
  C5, as the claim states it, fails: a lookup that finds nothing succeeds with status
  200, but its body is the object \<^verbatim>\<open>{"message": "No bookings found for email: ..."}\<close>, not
  an empty array (line 167: "return a message instead of an empty list").
\<close>

theorem lookup_no_match_counterexample:
  "get_client_bookings_by_email ascii_lower (Some ''nonexistent@example.com'')
       (Some \<lparr>classes = [yoga], bookings = []\<rparr>) =
     (Inr (Message_no_bookings ''nonexistent@example.com'', 200),
      Some \<lparr>classes = [yoga], bookings = []\<rparr>) \<and>
   fst (get_client_bookings_by_email ascii_lower (Some ''nonexistent@example.com'')
       (Some \<lparr>classes = [yoga], bookings = []\<rparr>)) \<noteq> Inr (Booking_list [], 200)"
  by (simp add: get_client_bookings_by_email_def)

text \<open>
  C5, amended. For a non-empty query email and a ledger whose stored emails are all
  strs, none of which equals the query once \<^verbatim>\<open>str.lower\<close> is applied to both, the lookup
  succeeds with status 200 and returns the message object that names the query; the
  state stays as it was. This holds whatever function \<open>lower\<close> is.
\<close>

theorem lookup_no_match_message:
  assumes "q \<noteq> []"
    and "list_all email_is_str (bookings s)"
    and "filter (matches_email lower q) (bookings s) = []"
  shows "get_client_bookings_by_email lower (Some q) (Some s) =
           (Inr (Message_no_bookings q, 200), Some s)"
  using assms
  by (simp add: get_client_bookings_by_email_def client_specific_bookings_filter)

theorem lookup_no_match_message_witness:
  "list_all email_is_str [booking_of ''b-1'' ''Yoga'' ''Alice'' ''a@x.com'' ''12:00''] \<and>
   filter (matches_email ascii_lower ''b@x.com'')
     [booking_of ''b-1'' ''Yoga'' ''Alice'' ''a@x.com'' ''12:00''] = [] \<and>
   get_client_bookings_by_email ascii_lower (Some ''b@x.com'')
       (Some \<lparr>classes = [yoga_full],
              bookings = [booking_of ''b-1'' ''Yoga'' ''Alice'' ''a@x.com'' ''12:00'']\<rparr>) =
     (Inr (Message_no_bookings ''b@x.com'', 200),
      Some \<lparr>classes = [yoga_full],
            bookings = [booking_of ''b-1'' ''Yoga'' ''Alice'' ''a@x.com'' ''12:00'']\<rparr>)"
proof -
  have h1: "list_all email_is_str [booking_of ''b-1'' ''Yoga'' ''Alice'' ''a@x.com'' ''12:00'']"
    by (simp add: email_is_str_def)
  have h2: "filter (matches_email ascii_lower ''b@x.com'')
      [booking_of ''b-1'' ''Yoga'' ''Alice'' ''a@x.com'' ''12:00''] = []"
    by code_simp
  from h1 h2 lookup_no_match_message
    [of "''b@x.com''" "\<lparr>classes = [yoga_full],
           bookings = [booking_of ''b-1'' ''Yoga'' ''Alice'' ''a@x.com'' ''12:00'']\<rparr>"
        ascii_lower]
  show ?thesis by simp
qed

text \<open>
  C6, as the claim states it, fails for a query that matches nothing: the bookings
  whose email equals the query are none, and the lookup returns the message object
  instead of that empty sequence.
\<close>

theorem lookup_exact_counterexample:
  "filter (matches_email ascii_lower ''c@d.com'')
     [booking_of ''b-1'' ''Yoga'' ''Alice'' ''A@B.com'' ''12:00''] = [] \<and>
   fst (get_client_bookings_by_email ascii_lower (Some ''c@d.com'')
       (Some \<lparr>classes = [yoga_full],
              bookings = [booking_of ''b-1'' ''Yoga'' ''Alice'' ''A@B.com'' ''12:00'']\<rparr>)) =
     Inr (Message_no_bookings ''c@d.com'', 200) \<and>
   fst (get_client_bookings_by_email ascii_lower (Some ''c@d.com'')
       (Some \<lparr>classes = [yoga_full],
              bookings = [booking_of ''b-1'' ''Yoga'' ''Alice'' ''A@B.com'' ''12:00'']\<rparr>)) \<noteq>
     Inr (Booking_list (filter (matches_email ascii_lower ''c@d.com'')
       [booking_of ''b-1'' ''Yoga'' ''Alice'' ''A@B.com'' ''12:00'']), 200)"
proof -
  have "filter (matches_email ascii_lower ''c@d.com'')
     [booking_of ''b-1'' ''Yoga'' ''Alice'' ''A@B.com'' ''12:00''] = []"
    by code_simp
  moreover have "ascii_lower ''A@B.com'' \<noteq> ascii_lower ''c@d.com''"
    by code_simp
  ultimately show ?thesis
    by (simp add: get_client_bookings_by_email_def)
qed

text \<open>
  C6, amended. For a non-empty query email and a ledger whose stored emails are all
  strs, at least one of which equals the query once \<^verbatim>\<open>str.lower\<close> is applied to both,
  the lookup returns, with status 200, exactly the bookings whose email equals the
  query in that sense, in the order of the ledger; the state stays as it was. (With
  no match it returns the message of C5.) This holds whatever function \<open>lower\<close> is;
  in the example a booking made with \<^verbatim>\<open>A@B.com\<close> is found under \<^verbatim>\<open>a@b.com\<close>.
\<close>

theorem lookup_returns_matches_in_order:
  assumes "q \<noteq> []"
    and "list_all email_is_str (bookings s)"
    and "filter (matches_email lower q) (bookings s) \<noteq> []"
  shows "get_client_bookings_by_email lower (Some q) (Some s) =
           (Inr (Booking_list (filter (matches_email lower q) (bookings s)), 200), Some s)"
  using assms
  by (simp add: get_client_bookings_by_email_def client_specific_bookings_filter)

theorem lookup_returns_matches_in_order_witness:
  "list_all email_is_str
     [booking_of ''b-1'' ''Yoga'' ''Alice'' ''A@B.com'' ''12:00'',
      booking_of ''b-2'' ''HIIT'' ''Carol'' ''c@d.com'' ''12:01'',
      booking_of ''b-3'' ''HIIT'' ''Alice'' ''a@b.com'' ''12:02''] \<and>
   filter (matches_email ascii_lower ''a@b.com'')
     [booking_of ''b-1'' ''Yoga'' ''Alice'' ''A@B.com'' ''12:00'',
      booking_of ''b-2'' ''HIIT'' ''Carol'' ''c@d.com'' ''12:01'',
      booking_of ''b-3'' ''HIIT'' ''Alice'' ''a@b.com'' ''12:02''] \<noteq> [] \<and>
   get_client_bookings_by_email ascii_lower (Some ''a@b.com'')
       (Some \<lparr>classes = [yoga_full, hiit],
              bookings =
                [booking_of ''b-1'' ''Yoga'' ''Alice'' ''A@B.com'' ''12:00'',
                 booking_of ''b-2'' ''HIIT'' ''Carol'' ''c@d.com'' ''12:01'',
                 booking_of ''b-3'' ''HIIT'' ''Alice'' ''a@b.com'' ''12:02'']\<rparr>) =
     (Inr (Booking_list
             [booking_of ''b-1'' ''Yoga'' ''Alice'' ''A@B.com'' ''12:00'',
              booking_of ''b-3'' ''HIIT'' ''Alice'' ''a@b.com'' ''12:02''], 200),
      Some \<lparr>classes = [yoga_full, hiit],
              bookings =
                [booking_of ''b-1'' ''Yoga'' ''Alice'' ''A@B.com'' ''12:00'',
                 booking_of ''b-2'' ''HIIT'' ''Carol'' ''c@d.com'' ''12:01'',
                 booking_of ''b-3'' ''HIIT'' ''Alice'' ''a@b.com'' ''12:02'']\<rparr>)"
proof -
  have h1: "list_all email_is_str
     [booking_of ''b-1'' ''Yoga'' ''Alice'' ''A@B.com'' ''12:00'',
      booking_of ''b-2'' ''HIIT'' ''Carol'' ''c@d.com'' ''12:01'',
      booking_of ''b-3'' ''HIIT'' ''Alice'' ''a@b.com'' ''12:02'']"
    by (simp add: email_is_str_def)
  have h2: "filter (matches_email ascii_lower ''a@b.com'')
     [booking_of ''b-1'' ''Yoga'' ''Alice'' ''A@B.com'' ''12:00'',
      booking_of ''b-2'' ''HIIT'' ''Carol'' ''c@d.com'' ''12:01'',
      booking_of ''b-3'' ''HIIT'' ''Alice'' ''a@b.com'' ''12:02''] =
     [booking_of ''b-1'' ''Yoga'' ''Alice'' ''A@B.com'' ''12:00'',
      booking_of ''b-3'' ''HIIT'' ''Alice'' ''a@b.com'' ''12:02'']"
    by code_simp
  from h1 h2 lookup_returns_matches_in_order
    [of "''a@b.com''" "\<lparr>classes = [yoga_full, hiit],
              bookings =
                [booking_of ''b-1'' ''Yoga'' ''Alice'' ''A@B.com'' ''12:00'',
                 booking_of ''b-2'' ''HIIT'' ''Carol'' ''c@d.com'' ''12:01'',
                 booking_of ''b-3'' ''HIIT'' ''Alice'' ''a@b.com'' ''12:02'']\<rparr>"
        ascii_lower]
  show ?thesis by simp
qed

section \<open>The capacity invariant\<close>

lemma list_all_update:
  "list_all P xs \<Longrightarrow> P v \<Longrightarrow> list_all P (xs[i := v])"
proof (induction xs arbitrary: i)
  case Nil
  then show ?case by simp
next
  case (Cons x xs)
  then show ?case by (cases i) auto
qed

lemma reset_slots_ok: "slots_ok (snd (reset_test_data u1 t1 u2 t2 u3 t3 u4 t4 g))"
  by (simp add: reset_test_data_def slots_ok_def)

lemma list_keeps_state: "snd (get_all_fitness_classes g) = g"
  by (simp add: get_all_fitness_classes_def split: option.splits)

lemma lookup_keeps_state: "snd (get_client_bookings_by_email lower client_email_query g) = g"
  by (simp add: get_client_bookings_by_email_def split: option.splits sum.splits)

lemma book_slots_ok:
  assumes "slots_ok g"
  shows "slots_ok (snd (book_a_fitness_class request_data new_id now g))"
proof (cases "status (fst (book_a_fitness_class request_data new_id now g)) = Some 201")
  case False
  with assms show ?thesis by (simp add: book_other_status)
next
  case True
  then obtain b where "fst (book_a_fitness_class request_data new_id now g) = Inr (b, 201)"
    by (cases "fst (book_a_fitness_class request_data new_id now g)") auto
  then obtain kvs s i where g: "g = Some s"
    and fields: "book_fields request_data = Inr kvs" and chk: "book_find kvs s = Inr i"
    using book_201 by blast
  from chk have free: "0 < available_slots (classes s ! i)"
    by (simp add: book_find_Inr)
  from chk have i: "i < length (classes s)"
    by (rule book_find_in_range)
  let ?P = "\<lambda>c. 0 \<le> available_slots c \<and> available_slots c \<le> total_slots c"
  from assms g have all: "list_all ?P (classes s)"
    by (simp add: slots_ok_def)
  with i have "?P (classes s ! i)"
    by (simp add: list_all_length)
  with free have "?P ((classes s ! i)\<lparr>available_slots := available_slots (classes s ! i) - 1\<rparr>)"
    by simp
  with all have "list_all ?P ((classes s)
      [i := (classes s ! i)\<lparr>available_slots := available_slots (classes s ! i) - 1\<rparr>])"
    by (rule list_all_update)
  with g book_passed [OF fields chk, of new_id now] show ?thesis
    by (simp add: slots_ok_def)
qed

lemma handle_slots_ok: "slots_ok g \<Longrightarrow> slots_ok (snd (handle lower r g))"
  by (cases r) (simp_all add: reset_slots_ok list_keeps_state lookup_keeps_state book_slots_ok)

lemma snd_serve_Cons:
  "snd (serve lower (r # rs) g) = snd (serve lower rs (snd (handle lower r g)))"
  by (simp split: prod.splits)

lemma serve_slots_ok: "slots_ok g \<Longrightarrow> slots_ok (snd (serve lower rs g))"
proof (induction rs arbitrary: g)
  case Nil
  then show ?case by simp
next
  case (Cons r rs)
  from Cons.prems have "slots_ok (snd (handle lower r g))"
    by (rule handle_slots_ok)
  then have "slots_ok (snd (serve lower rs (snd (handle lower r g))))"
    by (rule Cons.IH)
  then show ?case
    by (simp only: snd_serve_Cons)
qed

text \<open>
  C1, as the claim states it, fails when booking calls run at the same time: two calls
  whose checks (line 120) both see the last slot both decrement it (line 126), and
  the class is left with \<open>-1\<close> slots.
\<close>

theorem concurrent_slots_counterexample:
  "slots_ok (Some \<lparr>classes = [yoga], bookings = []\<rparr>) \<and>
   snd (interleave [0, 1, 1, 0, 1, 0]
     [\<lparr>payload = book_request ''Yoga'' ''Alice'' ''a@x.com'', fresh_id = ''b-1'',
       clock = ''12:00'', progress = Before_check\<rparr>,
      \<lparr>payload = book_request ''Yoga'' ''Bob'' ''b@x.com'', fresh_id = ''b-2'',
       clock = ''12:00'', progress = Before_check\<rparr>]
     \<lparr>classes = [yoga], bookings = []\<rparr>) =
     \<lparr>classes = [\<lparr>id_c = ''Yoga'', name = ''Yoga'', date_time = ''2030-01-01T07:30:00'',
                   instructor = ''Ann'', total_slots = 1, available_slots = - 1\<rparr>],
      bookings = [booking_of ''b-2'' ''Yoga'' ''Bob'' ''b@x.com'' ''12:00'',
                  booking_of ''b-1'' ''Yoga'' ''Alice'' ''a@x.com'' ''12:00'']\<rparr> \<and>
   \<not> slots_ok (Some
     \<lparr>classes = [\<lparr>id_c = ''Yoga'', name = ''Yoga'', date_time = ''2030-01-01T07:30:00'',
                   instructor = ''Ann'', total_slots = 1, available_slots = - 1\<rparr>],
      bookings = [booking_of ''b-2'' ''Yoga'' ''Bob'' ''b@x.com'' ''12:00'',
                  booking_of ''b-1'' ''Yoga'' ''Alice'' ''a@x.com'' ''12:00'']\<rparr>)"
  by (simp add: book_step_def book_defs slots_ok_def)

text \<open>
  C1, amended. When the requests to the four routes are served one after the other,
  each handler running to its end before the next begins, then, starting from the
  module as imported (\<open>None\<close>, where there are no classes yet) or from any state in which
  every class has between 0 and \<^verbatim>\<open>total_slots\<close> slots left, after every sequence of
  requests every class has between 0 and \<^verbatim>\<open>total_slots\<close> slots left.
\<close>

theorem slots_within_capacity:
  assumes "slots_ok g"
    and "snd (serve lower rs g) = Some s"
    and "c \<in> set (classes s)"
  shows "0 \<le> available_slots c \<and> available_slots c \<le> total_slots c"
proof -
  from assms(1) have "slots_ok (snd (serve lower rs g))"
    by (rule serve_slots_ok)
  with assms(2,3) show ?thesis
    by (simp add: slots_ok_def list_all_iff)
qed

theorem slots_within_capacity_witness:
  "slots_ok None \<and>
   snd (serve ascii_lower [List_classes,
               Reset ''u-1'' ''t-1'' ''u-2'' ''t-2'' ''u-3'' ''t-3'' ''u-4'' ''t-4'',
               Book (book_request ''u-2'' ''Alice'' ''a@x.com'') ''b-1'' ''12:00'',
               Bookings_for (Some ''a@x.com''),
               Book (book_request ''u-2'' ''Bob'' ''b@x.com'') ''b-2'' ''12:05''] None) =
     Some \<lparr>classes =
        [\<lparr>id_c = ''u-1'', name = ''Sunrise Yoga & Meditation'', date_time = ''t-1'',
           instructor = ''Zen Master Yoda'', total_slots = 18, available_slots = 18\<rparr>,
         \<lparr>id_c = ''u-2'', name = ''Power HIIT Blast'', date_time = ''t-2'',
           instructor = ''Captain America'', total_slots = 12, available_slots = 10\<rparr>,
         \<lparr>id_c = ''u-3'', name = ''Groovy Zumba Fiesta'', date_time = ''t-3'',
           instructor = ''Beyonc'' @ [CHR 0xE2, CHR 0x88, CHR 0x9A, CHR 0xC2, CHR 0xA9]
             @ '' Knowles'',
           total_slots = 25, available_slots = 25\<rparr>,
         \<lparr>id_c = ''u-4'', name = ''Core Strength Pilates'', date_time = ''t-4'',
           instructor = ''Wonder Woman'', total_slots = 14, available_slots = 14\<rparr>],
       bookings = [booking_of ''b-1'' ''u-2'' ''Alice'' ''a@x.com'' ''12:00'',
                   booking_of ''b-2'' ''u-2'' ''Bob'' ''b@x.com'' ''12:05'']\<rparr> \<and>
   (0::int) \<le> available_slots
         \<lparr>id_c = ''u-2'', name = ''Power HIIT Blast'', date_time = ''t-2'',
           instructor = ''Captain America'', total_slots = 12, available_slots = 10\<rparr> \<and>
   available_slots
         \<lparr>id_c = ''u-2'', name = ''Power HIIT Blast'', date_time = ''t-2'',
           instructor = ''Captain America'', total_slots = 12, available_slots = 10\<rparr>
     \<le> total_slots
         \<lparr>id_c = ''u-2'', name = ''Power HIIT Blast'', date_time = ''t-2'',
           instructor = ''Captain America'', total_slots = 12, available_slots = 10\<rparr>"
proof -
  have h1: "slots_ok None"
    by (simp add: slots_ok_def)
  have h2: "snd (serve ascii_lower [List_classes,
               Reset ''u-1'' ''t-1'' ''u-2'' ''t-2'' ''u-3'' ''t-3'' ''u-4'' ''t-4'',
               Book (book_request ''u-2'' ''Alice'' ''a@x.com'') ''b-1'' ''12:00'',
               Bookings_for (Some ''a@x.com''),
               Book (book_request ''u-2'' ''Bob'' ''b@x.com'') ''b-2'' ''12:05''] None) =
     Some \<lparr>classes =
        [\<lparr>id_c = ''u-1'', name = ''Sunrise Yoga & Meditation'', date_time = ''t-1'',
           instructor = ''Zen Master Yoda'', total_slots = 18, available_slots = 18\<rparr>,
         \<lparr>id_c = ''u-2'', name = ''Power HIIT Blast'', date_time = ''t-2'',
           instructor = ''Captain America'', total_slots = 12, available_slots = 10\<rparr>,
         \<lparr>id_c = ''u-3'', name = ''Groovy Zumba Fiesta'', date_time = ''t-3'',
           instructor = ''Beyonc'' @ [CHR 0xE2, CHR 0x88, CHR 0x9A, CHR 0xC2, CHR 0xA9]
             @ '' Knowles'',
           total_slots = 25, available_slots = 25\<rparr>,
         \<lparr>id_c = ''u-4'', name = ''Core Strength Pilates'', date_time = ''t-4'',
           instructor = ''Wonder Woman'', total_slots = 14, available_slots = 14\<rparr>],
       bookings = [booking_of ''b-1'' ''u-2'' ''Alice'' ''a@x.com'' ''12:00'',
                   booking_of ''b-2'' ''u-2'' ''Bob'' ''b@x.com'' ''12:05'']\<rparr>"
    by (simp add: book_defs reset_test_data_def get_all_fitness_classes_def
        get_client_bookings_by_email_def ascii_lower_def)
  from h1 h2 slots_within_capacity [OF h1 h2,
      of "\<lparr>id_c = ''u-2'', name = ''Power HIIT Blast'', date_time = ''t-2'',
           instructor = ''Captain America'', total_slots = 12, available_slots = 10\<rparr>"]
  show ?thesis by simp
qed

section \<open>Filling a class\<close>

text \<open>
  The three parts of \<open>book_step\<close>, run without another call in between, are the
  handler \<open>book_a_fitness_class\<close>.
\<close>

lemma interleave_alone:
  assumes "progress c = Before_check"
    and "interleave [0, 0, 0] [c] s = ([c'], s')"
  shows "(Returned (fst (book_a_fitness_class (payload c) (fresh_id c) (clock c) (Some s))),
          snd (book_a_fitness_class (payload c) (fresh_id c) (clock c) (Some s))) =
         (progress c', Some s')"
proof (cases "book_fields (payload c)")
  case (Inl early)
  with assms show ?thesis
    by (auto simp: book_step_def book_stopped_fields)
next
  case fields: (Inr kvs)
  show ?thesis
  proof (cases "book_find kvs s")
    case (Inl early)
    with assms fields show ?thesis
      by (auto simp: book_step_def book_stopped_find)
  next
    case (Inr i)
    then have "i < length (classes s)"
      by (rule book_find_in_range)
    with assms fields Inr show ?thesis
      by (auto simp: book_step_def book_passed [OF fields Inr] book_append_def
          book_decrement_def Let_def)
  qed
qed

text \<open>
  C2, as the claim states it, fails: with one slot left in a class of one slot, two
  calls whose checks (line 120) both run before either decrement (line 126) both
  return status 201. The class ends with \<open>-1\<close> slots and two bookings.
\<close>

theorem concurrent_last_slot_counterexample:
  "interleave [0, 1, 0, 1, 0, 1]
     [\<lparr>payload = book_request ''Yoga'' ''Alice'' ''a@x.com'', fresh_id = ''b-1'',
       clock = ''12:00'', progress = Before_check\<rparr>,
      \<lparr>payload = book_request ''Yoga'' ''Bob'' ''b@x.com'', fresh_id = ''b-2'',
       clock = ''12:00'', progress = Before_check\<rparr>]
     \<lparr>classes = [yoga], bookings = []\<rparr> =
   ([\<lparr>payload = book_request ''Yoga'' ''Alice'' ''a@x.com'', fresh_id = ''b-1'',
       clock = ''12:00'',
       progress = Returned (Inr (Booking_created
         (booking_of ''b-1'' ''Yoga'' ''Alice'' ''a@x.com'' ''12:00'') (- 1), 201))\<rparr>,
      \<lparr>payload = book_request ''Yoga'' ''Bob'' ''b@x.com'', fresh_id = ''b-2'',
       clock = ''12:00'',
       progress = Returned (Inr (Booking_created
         (booking_of ''b-2'' ''Yoga'' ''Bob'' ''b@x.com'' ''12:00'') (- 1), 201))\<rparr>],
    \<lparr>classes = [\<lparr>id_c = ''Yoga'', name = ''Yoga'', date_time = ''2030-01-01T07:30:00'',
                   instructor = ''Ann'', total_slots = 1, available_slots = - 1\<rparr>],
      bookings = [booking_of ''b-1'' ''Yoga'' ''Alice'' ''a@x.com'' ''12:00'',
                  booking_of ''b-2'' ''Yoga'' ''Bob'' ''b@x.com'' ''12:00'']\<rparr>)"
  by (simp add: book_step_def book_defs)

text \<open>
  Served one after the other, booking requests for one class succeed as long as it
  has slots and are turned away from then on.
\<close>

lemma books_class_cases:
  assumes "books_class cid r"
  obtains kvs new_id now where "r = Book (JObj kvs) new_id now"
    and "dict_get kvs ''class_id'' = JStr cid" and "cid \<noteq> []"
    and "truthy (dict_get kvs ''client_name'')" and "truthy (dict_get kvs ''client_email'')"
  using assms by (cases "(cid, r)" rule: books_class.cases) auto

lemma fst_serve_Cons:
  "fst (serve lower (r # rs) g) =
     fst (handle lower r g) # fst (serve lower rs (snd (handle lower r g)))"
  by (simp split: prod.splits)

lemma serve_one_class:
  assumes "find_class (classes s) (JStr cid) = Some i"
    and "0 \<le> available_slots (classes s ! i)"
    and "list_all (books_class cid) rs"
  shows "\<exists>s'. snd (serve lower rs (Some s)) = Some s' \<and>
     map status (fst (serve lower rs (Some s))) =
       replicate (min (nat (available_slots (classes s ! i))) (length rs)) (Some 201) @
       replicate (length rs - nat (available_slots (classes s ! i))) (Some 409) \<and>
     drop (nat (available_slots (classes s ! i))) (fst (serve lower rs (Some s))) =
       replicate (length rs - nat (available_slots (classes s ! i))) (Inr (Error_fully_booked, 409)) \<and>
     length (bookings_of_class cid (bookings s')) =
       length (bookings_of_class cid (bookings s)) +
       min (nat (available_slots (classes s ! i))) (length rs) \<and>
     available_slots (classes s' ! i) =
       available_slots (classes s ! i) -
       int (min (nat (available_slots (classes s ! i))) (length rs))"
  using assms
proof (induction rs arbitrary: s)
  case Nil
  then show ?case by simp
next
  case (Cons r rs)
  from Cons.prems(3) have r: "books_class cid r" and rest: "list_all (books_class cid) rs"
    by simp_all
  from r obtain kvs new_id now where req: "r = Book (JObj kvs) new_id now"
    and cid: "dict_get kvs ''class_id'' = JStr cid" "cid \<noteq> []"
    and name: "truthy (dict_get kvs ''client_name'')"
    and email: "truthy (dict_get kvs ''client_email'')"
    by (rule books_class_cases)
  let ?a = "available_slots (classes s ! i)"
  show ?case
  proof (cases "?a = 0")
    case True
    from cid name email have fields: "book_fields (JObj kvs) = Inr kvs"
      by (simp add: book_fields_Inr)
    from cid Cons.prems(1) True
    have "book_find kvs s = Inl (Inr (Error_fully_booked, 409))"
      by (simp add: book_find_full)
    with fields have h: "handle lower r (Some s) = (Inr (Error_fully_booked, 409), Some s)"
      by (simp add: req book_stopped_find)
    from Cons.IH [OF Cons.prems(1) Cons.prems(2) rest] obtain s' where
      "snd (serve lower rs (Some s)) = Some s'"
      "map status (fst (serve lower rs (Some s))) = replicate (length rs) (Some 409)"
      "fst (serve lower rs (Some s)) = replicate (length rs) (Inr (Error_fully_booked, 409))"
      "length (bookings_of_class cid (bookings s')) = length (bookings_of_class cid (bookings s))"
      "available_slots (classes s' ! i) = ?a"
      using True by auto
    with h True show ?thesis
      by (simp add: snd_serve_Cons fst_serve_Cons del: serve.simps)
  next
    case False
    with Cons.prems(2) have pos: "0 < ?a" by simp
    from cid name email have fields: "book_fields (JObj kvs) = Inr kvs"
      by (simp add: book_fields_Inr)
    from pos cid Cons.prems(1) have chk: "book_find kvs s = Inr i"
      by (simp add: book_find_Inr)
    from Cons.prems(1) have i: "i < length (classes s)"
      by (simp add: find_class_Some)
    let ?b = "new_booking_record kvs new_id now"
    let ?s1 = "\<lparr>classes = (classes s)[i := (classes s ! i)\<lparr>available_slots := ?a - 1\<rparr>],
               bookings = bookings s @ [?b]\<rparr>"
    from book_passed [OF fields chk, of new_id now]
    have h: "handle lower r (Some s) = (Inr (Booking_created ?b (?a - 1), 201), Some ?s1)"
      by (simp add: req)
    have f1: "find_class (classes ?s1) (JStr cid) = Some i"
      using Cons.prems(1) by (simp add: find_class_update)
    have a1: "available_slots (classes ?s1 ! i) = ?a - 1"
      using i by simp
    with pos have p1: "0 \<le> available_slots (classes ?s1 ! i)"
      by simp
    have b1: "length (bookings_of_class cid (bookings ?s1)) =
        Suc (length (bookings_of_class cid (bookings s)))"
      using cid by (simp add: bookings_of_class_def new_booking_record_def)
    from pos obtain k where k: "nat ?a = Suc k"
      by (cases "nat ?a") auto
    then have k1: "nat (?a - 1) = k" by simp
    from Cons.IH [OF f1 p1 rest] obtain s' where
      "snd (serve lower rs (Some ?s1)) = Some s'"
      "map status (fst (serve lower rs (Some ?s1))) =
         replicate (min k (length rs)) (Some 201) @ replicate (length rs - k) (Some 409)"
      "drop k (fst (serve lower rs (Some ?s1))) =
         replicate (length rs - k) (Inr (Error_fully_booked, 409))"
      "length (bookings_of_class cid (bookings s')) =
         length (bookings_of_class cid (bookings ?s1)) + min k (length rs)"
      "available_slots (classes s' ! i) =
         available_slots (classes ?s1 ! i) - int (min k (length rs))"
      unfolding a1 k1 by blast
    with h k b1 a1 show ?thesis
      by (simp add: snd_serve_Cons fst_serve_Cons del: serve.simps)
  qed
qed

text \<open>
  C2, amended. For a class with \<^verbatim>\<open>total_slots = N\<close>, all of them available and none
  booked in the ledger, and booking requests for it that pass the field check, served
  one after the other: exactly the first \<open>N\<close> are answered with status 201, every later
  one with status 409, ClassFull, and the ledger then holds exactly \<open>N\<close> bookings that
  reference the class.
\<close>

theorem sequential_bookings_fill_class:
  assumes "find_class (classes s) (JStr cid) = Some i"
    and "total_slots (classes s ! i) = int N"
    and "available_slots (classes s ! i) = int N"
    and "bookings_of_class cid (bookings s) = []"
    and "list_all (books_class cid) rs"
    and "N \<le> length rs"
  shows "\<exists>s'. snd (serve lower rs (Some s)) = Some s' \<and>
     map status (take N (fst (serve lower rs (Some s)))) = replicate N (Some 201) \<and>
     drop N (fst (serve lower rs (Some s))) =
       replicate (length rs - N) (Inr (Error_fully_booked, 409)) \<and>
     length (bookings_of_class cid (bookings s')) = N \<and>
     available_slots (classes s' ! i) = 0"
proof -
  from assms(3) have "0 \<le> available_slots (classes s ! i)"
    by simp
  from serve_one_class [OF assms(1) this assms(5)] obtain s' where
    s': "snd (serve lower rs (Some s)) = Some s'"
    and st: "map status (fst (serve lower rs (Some s))) =
       replicate (min N (length rs)) (Some 201) @ replicate (length rs - N) (Some 409)"
    and dr: "drop N (fst (serve lower rs (Some s))) =
       replicate (length rs - N) (Inr (Error_fully_booked, 409))"
    and le: "length (bookings_of_class cid (bookings s')) =
       length (bookings_of_class cid (bookings s)) + min N (length rs)"
    and av: "available_slots (classes s' ! i) =
       available_slots (classes s ! i) - int (min N (length rs))"
    unfolding assms(3) nat_int by blast
  from st assms(6) have "map status (take N (fst (serve lower rs (Some s)))) = replicate N (Some 201)"
    by (simp add: take_map [symmetric] min_absorb1)
  with s' dr le av assms(3,4,6) show ?thesis
    by (simp add: min_absorb1)
qed

theorem sequential_bookings_fill_class_witness:
  "find_class [yoga] (JStr ''Yoga'') = Some 0 \<and>
   list_all (books_class ''Yoga'')
     [Book (book_request ''Yoga'' ''Alice'' ''a@x.com'') ''b-1'' ''12:00'',
      Book (book_request ''Yoga'' ''Bob'' ''b@x.com'') ''b-2'' ''12:05''] \<and>
   serve ascii_lower [Book (book_request ''Yoga'' ''Alice'' ''a@x.com'') ''b-1'' ''12:00'',
          Book (book_request ''Yoga'' ''Bob'' ''b@x.com'') ''b-2'' ''12:05'']
       (Some \<lparr>classes = [yoga], bookings = []\<rparr>) =
     ([Inr (Booking_created (booking_of ''b-1'' ''Yoga'' ''Alice'' ''a@x.com'' ''12:00'') 0, 201),
       Inr (Error_fully_booked, 409)],
      Some \<lparr>classes = [yoga_full],
            bookings = [booking_of ''b-1'' ''Yoga'' ''Alice'' ''a@x.com'' ''12:00'']\<rparr>) \<and>
   (\<exists>s'. snd (serve ascii_lower [Book (book_request ''Yoga'' ''Alice'' ''a@x.com'') ''b-1'' ''12:00'',
                     Book (book_request ''Yoga'' ''Bob'' ''b@x.com'') ''b-2'' ''12:05'']
               (Some \<lparr>classes = [yoga], bookings = []\<rparr>)) = Some s' \<and>
     map status (take 1 (fst (serve ascii_lower
         [Book (book_request ''Yoga'' ''Alice'' ''a@x.com'') ''b-1'' ''12:00'',
          Book (book_request ''Yoga'' ''Bob'' ''b@x.com'') ''b-2'' ''12:05'']
         (Some \<lparr>classes = [yoga], bookings = []\<rparr>)))) = replicate 1 (Some 201) \<and>
     drop 1 (fst (serve ascii_lower
         [Book (book_request ''Yoga'' ''Alice'' ''a@x.com'') ''b-1'' ''12:00'',
          Book (book_request ''Yoga'' ''Bob'' ''b@x.com'') ''b-2'' ''12:05'']
         (Some \<lparr>classes = [yoga], bookings = []\<rparr>))) =
       replicate (2 - 1) (Inr (Error_fully_booked, 409)) \<and>
     length (bookings_of_class ''Yoga'' (bookings s')) = 1 \<and>
     available_slots (classes s' ! 0) = 0)"
proof -
  have h1: "find_class (classes \<lparr>classes = [yoga], bookings = []\<rparr>) (JStr ''Yoga'') = Some 0"
    by simp
  have h2: "total_slots (classes \<lparr>classes = [yoga], bookings = []\<rparr> ! 0) = int 1"
    by simp
  have h3: "available_slots (classes \<lparr>classes = [yoga], bookings = []\<rparr> ! 0) = int 1"
    by simp
  have h4: "bookings_of_class ''Yoga'' (bookings \<lparr>classes = [yoga], bookings = []\<rparr>) = []"
    by (simp add: bookings_of_class_def)
  have h5: "list_all (books_class ''Yoga'')
     [Book (book_request ''Yoga'' ''Alice'' ''a@x.com'') ''b-1'' ''12:00'',
      Book (book_request ''Yoga'' ''Bob'' ''b@x.com'') ''b-2'' ''12:05'']"
    by (simp add: dict_get_def)
  have h6: "1 \<le> length
     [Book (book_request ''Yoga'' ''Alice'' ''a@x.com'') ''b-1'' ''12:00'',
      Book (book_request ''Yoga'' ''Bob'' ''b@x.com'') ''b-2'' ''12:05'']"
    by simp
  have run: "serve ascii_lower [Book (book_request ''Yoga'' ''Alice'' ''a@x.com'') ''b-1'' ''12:00'',
          Book (book_request ''Yoga'' ''Bob'' ''b@x.com'') ''b-2'' ''12:05'']
       (Some \<lparr>classes = [yoga], bookings = []\<rparr>) =
     ([Inr (Booking_created (booking_of ''b-1'' ''Yoga'' ''Alice'' ''a@x.com'' ''12:00'') 0, 201),
       Inr (Error_fully_booked, 409)],
      Some \<lparr>classes = [yoga_full],
            bookings = [booking_of ''b-1'' ''Yoga'' ''Alice'' ''a@x.com'' ''12:00'']\<rparr>)"
    by (simp add: book_defs)
  from sequential_bookings_fill_class [OF h1 h2 h3 h4 h5 h6] h1 h5 run
  show ?thesis by simp
qed

end
